theory Spec2Isabelle
  imports Complex_Main "HOL-Library.Sublist" "HOL-Library.Multiset"
begin

section \<open>Data model\<close>

text \<open>
  The scanner works on Python floats and ints delivered by the brokerage API. Every number
  is modelled as a \<^typ>\<open>real\<close> (an \<^typ>\<open>int\<close> where the source computes an integer
  score, a \<^typ>\<open>nat\<close> where it takes a length); rounding and NaN are outside the model.
  A Python exception is a value of \<open>py_error\<close>, and a function that can raise returns
  \<open>py_error + 'a\<close>.
\<close>

datatype py_error = AttributeError | TypeError | ZeroDivisionError

text \<open>
  The division \<open>x / y\<close> of the source. A zero divisor is a failure of the program
  (Python raises ZeroDivisionError; a numpy divisor would give inf or nan, which are no
  numbers of the model either), not the value \<open>0\<close> that \<open>x / 0\<close> has in HOL.
\<close>

definition py_div :: "real \<Rightarrow> real \<Rightarrow> py_error + real" where
  "py_div x y = (if y = 0 then Inl ZeroDivisionError else Inr (x / y))"

text \<open>The dictionary returned by \<open>analyze_volume_and_price\<close>.\<close>

record analysis =
  volume_ratio :: real
  price_change :: real
  range_ratio :: real
  avg_volume :: real
  current_volume :: real

text \<open>The dictionary returned by \<open>NewsAnalyzer.get_news_summary\<close> for a non-empty list.\<close>

record summary =
  sentiment :: string
  sentiment_score :: real
  category :: string
  is_major :: bool
  positive_keywords :: nat
  negative_keywords :: nat

text \<open>
  The value passed as \<open>news_summary\<close>: Python's \<open>None\<close>, a string (the summary of an
  empty article list is the string \<open>"No recent news"\<close>), or the dictionary above.
\<close>

datatype news_summary = PyNone | SummaryStr string | SummaryDict summary

text \<open>Python truthiness of such a value (the dictionary has six keys, so it is never empty).\<close>

fun truthy :: "news_summary \<Rightarrow> bool" where
  "truthy PyNone = False"
| "truthy (SummaryStr s) = (s \<noteq> [])"
| "truthy (SummaryDict d) = True"

section \<open>Signal scorer (enhanced\_screener.py, AdvancedFilters)\<close>

definition volume_points :: "real \<Rightarrow> int" where
  "volume_points vr = (if vr > 5 then 30 else if vr > 3 then 25 else if vr > 2 then 20 else 10)"

definition price_points :: "real \<Rightarrow> int" where
  "price_points pc = (if pc > 8 then 25 else if pc > 5 then 20 else if pc > 3 then 15 else 10)"

definition range_points :: "real \<Rightarrow> int" where
  "range_points rr = (if rr > 2 then 20 else if rr > 1.5 then 15 else if rr > 1 then 10 else 0)"

text \<open>
  The news block of \<open>calculate_strength_score\<close>. It is entered when \<open>news_summary\<close> is
  truthy and then calls \<open>news_summary.get\<close>, which a dictionary has and a string has not.
\<close>

fun news_points :: "news_summary \<Rightarrow> py_error + int" where
  "news_points PyNone = Inr 0"
| "news_points (SummaryStr s) = (if truthy (SummaryStr s) then Inl AttributeError else Inr 0)"
| "news_points (SummaryDict d) =
     Inr ((if is_major d then 15 else 0)
          + (if \<bar>sentiment_score d\<bar> > 0.5 then 10
             else if \<bar>sentiment_score d\<bar> > 0.2 then 5 else 0))"

text \<open>
  \<open>calculate_strength_score(analysis, news_summary, df)\<close>; \<open>df\<close> is not read by the body.
  \<open>analysis['volume_ratio']\<close> on \<open>None\<close> raises TypeError.
\<close>

definition calculate_strength_score :: "analysis option \<Rightarrow> news_summary \<Rightarrow> py_error + int" where
  "calculate_strength_score an ns =
     (case an of
        None \<Rightarrow> Inl TypeError
      | Some a \<Rightarrow>
          (let score = 0;
               score = score + volume_points (volume_ratio a);
               score = score + price_points \<bar>price_change a\<bar>
           in case news_points ns of
                Inl e \<Rightarrow> Inl e
              | Inr np \<Rightarrow>
                  (let score = score + np;
                       score = score + range_points (range_ratio a)
                   in Inr (min score 100))))"

definition no_news :: string where
  "no_news = ''No recent news''"

section \<open>News analyzer (enhanced\_screener.py, NewsAnalyzer)\<close>

text \<open>
  An article is a dictionary of the news provider; only \<open>title\<close> and \<open>description\<close> are
  read. \<open>Some s\<close> is a string value (a missing key reads as the default \<open>''\<close>, that is
  \<open>Some []\<close>); \<open>None\<close> is a value without \<open>.lower()\<close>, such as JSON null.
\<close>

record article =
  title :: "string option"
  description :: "string option"

text \<open>
  \<open>str.lower\<close> on ASCII text: the letters A to Z are lower-cased and every other byte is
  left as it is. Python's \<open>str.lower\<close> also maps letters outside ASCII, a few of them to
  ASCII letters (the Kelvin sign becomes \<open>k\<close>), so on such text the keyword counts of the
  source can differ from the ones computed here.
\<close>

definition lower_char :: "char \<Rightarrow> char" where
  "lower_char c =
     (let n = (of_char c :: nat) in if 65 \<le> n \<and> n \<le> 90 then char_of (n + 32) else c)"

definition upper_char :: "char \<Rightarrow> char" where
  "upper_char c =
     (let n = (of_char c :: nat) in if 97 \<le> n \<and> n \<le> 122 then char_of (n - 32) else c)"

definition is_alpha :: "char \<Rightarrow> bool" where
  "is_alpha c = (let n = (of_char c :: nat) in (65 \<le> n \<and> n \<le> 90) \<or> (97 \<le> n \<and> n \<le> 122))"

definition lower :: "string \<Rightarrow> string" where
  "lower s = map lower_char s"

text \<open>\<open>str.title\<close>: a letter after a non-letter is upper-cased, every other letter lower-cased.\<close>

fun title_from :: "bool \<Rightarrow> string \<Rightarrow> string" where
  "title_from prev [] = []"
| "title_from prev (c # cs) =
     (if is_alpha c then (if prev then lower_char c else upper_char c) # title_from True cs
      else c # title_from False cs)"

definition py_title :: "string \<Rightarrow> string" where
  "py_title s = title_from False s"

definition POSITIVE_KEYWORDS :: "string list" where
  "POSITIVE_KEYWORDS =
     [''contract'', ''deal'', ''win'', ''won'', ''awarded'', ''growth'', ''profit'',
      ''surge'', ''gain'', ''record'', ''high'', ''acquisition'', ''expand'',
      ''partnership'', ''collaboration'', ''success'', ''breakthrough'', ''innovation'',
      ''dividend'', ''buyback'', ''upgrade'', ''positive'', ''approval'', ''order'',
      ''revenue'', ''beat'', ''exceed'', ''strong'', ''robust'', ''bullish'']"

definition NEGATIVE_KEYWORDS :: "string list" where
  "NEGATIVE_KEYWORDS =
     [''loss'', ''losses'', ''decline'', ''drop'', ''fall'', ''fell'', ''down'', ''weak'',
      ''miss'', ''missed'', ''below'', ''concern'', ''worry'', ''risk'', ''threat'',
      ''lawsuit'', ''investigation'', ''fraud'', ''scandal'', ''downgrade'', ''cut'',
      ''layoff'', ''fire'', ''closure'', ''bankruptcy'', ''debt'', ''bearish'', ''warning'']"

text \<open>The dictionary \<open>MAJOR_NEWS_TYPES\<close>, in insertion order.\<close>

definition MAJOR_NEWS_TYPES :: "(string \<times> string list) list" where
  "MAJOR_NEWS_TYPES =
     [(''contract'', [''contract'', ''deal'', ''order'', ''awarded'']),
      (''financial'', [''profit'', ''revenue'', ''earnings'', ''results'', ''quarter'']),
      (''acquisition'', [''acquisition'', ''merger'', ''takeover'', ''buyout'']),
      (''regulatory'', [''approval'', ''license'', ''compliance'', ''regulation'']),
      (''legal'', [''lawsuit'', ''court'', ''legal'', ''case'', ''settlement'']),
      (''management'', [''ceo'', ''cfo'', ''appointment'', ''resignation'', ''chairman'']),
      (''product'', [''launch'', ''product'', ''service'', ''innovation''])]"

text \<open>
  \<open>text = f"{title} {description}"\<close> of the lower-cased fields; \<open>.lower()\<close> on a value
  that is not a string raises AttributeError.
\<close>

definition article_text :: "article \<Rightarrow> py_error + string" where
  "article_text a =
     (case title a of
        None \<Rightarrow> Inl AttributeError
      | Some t \<Rightarrow>
          (case description a of
             None \<Rightarrow> Inl AttributeError
           | Some d \<Rightarrow> Inr (lower t @ '' '' @ lower d)))"

text \<open>\<open>keyword in text\<close> is substring containment, \<^const>\<open>sublist\<close>.\<close>

definition keyword_hits :: "string list \<Rightarrow> string \<Rightarrow> nat" where
  "keyword_hits kws text = length (filter (\<lambda>keyword. sublist keyword text) kws)"

text \<open>The loop of \<open>analyze_sentiment\<close> over the articles, with both counters.\<close>

fun count_keywords :: "article list \<Rightarrow> nat \<times> nat \<Rightarrow> py_error + nat \<times> nat" where
  "count_keywords [] counts = Inr counts"
| "count_keywords (a # rest) (positive_count, negative_count) =
     (case article_text a of
        Inl e \<Rightarrow> Inl e
      | Inr text \<Rightarrow>
          count_keywords rest
            (positive_count + keyword_hits POSITIVE_KEYWORDS text,
             negative_count + keyword_hits NEGATIVE_KEYWORDS text))"

definition analyze_sentiment :: "article list \<Rightarrow> py_error + real \<times> nat \<times> nat" where
  "analyze_sentiment news_articles =
     (if news_articles = [] then Inr (0, 0, 0)
      else case count_keywords news_articles (0, 0) of
             Inl e \<Rightarrow> Inl e
           | Inr (positive_count, negative_count) \<Rightarrow>
               (let total = positive_count + negative_count in
                case (if total = 0 then Inr 0
                      else py_div (real positive_count - real negative_count) (real total)) of
                  Inl e \<Rightarrow> Inl e
                | Inr score \<Rightarrow> Inr (score, positive_count, negative_count)))"

text \<open>The inner loop of \<open>categorize_news\<close>: the first category with a keyword in the text.\<close>

fun first_category :: "(string \<times> string list) list \<Rightarrow> string \<Rightarrow> string option" where
  "first_category [] text = None"
| "first_category ((cat, keywords) # rest) text =
     (if list_ex (\<lambda>keyword. sublist keyword text) keywords then Some cat
      else first_category rest text)"

fun categorize_news :: "article list \<Rightarrow> py_error + string list" where
  "categorize_news [] = Inr []"
| "categorize_news (a # rest) =
     (case article_text a of
        Inl e \<Rightarrow> Inl e
      | Inr text \<Rightarrow>
          (case categorize_news rest of
             Inl e \<Rightarrow> Inl e
           | Inr cats \<Rightarrow>
               (case first_category MAJOR_NEWS_TYPES text of
                  None \<Rightarrow> Inr cats
                | Some cat \<Rightarrow> Inr (cat # cats))))"

definition major_categories :: "string list" where
  "major_categories = [''contract'', ''acquisition'', ''regulatory'', ''legal'']"

definition is_major_news :: "article list \<Rightarrow> py_error + bool" where
  "is_major_news news_articles =
     (case categorize_news news_articles of
        Inl e \<Rightarrow> Inl e
      | Inr categories \<Rightarrow> Inr (list_ex (\<lambda>cat. cat \<in> set major_categories) categories))"

text \<open>
  \<open>Counter(categories).most_common(1)[0][0]\<close>: the keys of a Counter are in first-seen
  order, and the first key with the largest count is returned.
\<close>

definition counter_items :: "string list \<Rightarrow> (string \<times> nat) list" where
  "counter_items xs = map (\<lambda>k. (k, count_list xs k)) (rev (remdups (rev xs)))"

fun first_max :: "(string \<times> nat) list \<Rightarrow> string \<times> nat \<Rightarrow> string \<times> nat" where
  "first_max [] best = best"
| "first_max (kv # rest) best = first_max rest (if snd kv > snd best then kv else best)"

definition sentiment_label_of :: "real \<Rightarrow> string" where
  "sentiment_label_of s =
     (if s > 0.3 then ''Highly Positive''
      else if s > 0 then ''Positive''
      else if s < - 0.3 then ''Highly Negative''
      else if s < 0 then ''Negative''
      else ''Neutral'')"

definition category_str_of :: "string list \<Rightarrow> string" where
  "category_str_of categories =
     (case counter_items categories of
        [] \<Rightarrow> ''General News''
      | kv # rest \<Rightarrow> py_title (fst (first_max rest kv)) @ '' News'')"

definition get_news_summary :: "article list \<Rightarrow> py_error + news_summary" where
  "get_news_summary news_articles =
     (if news_articles = [] then Inr (SummaryStr no_news)
      else case analyze_sentiment news_articles of
             Inl e \<Rightarrow> Inl e
           | Inr (score, pos_count, neg_count) \<Rightarrow>
               (case categorize_news news_articles of
                  Inl e \<Rightarrow> Inl e
                | Inr categories \<Rightarrow>
                    (case is_major_news news_articles of
                       Inl e \<Rightarrow> Inl e
                     | Inr major \<Rightarrow>
                         Inr (SummaryDict
                               \<lparr>sentiment = sentiment_label_of score,
                                sentiment_score = score,
                                category = category_str_of categories,
                                is_major = major,
                                positive_keywords = pos_count,
                                negative_keywords = neg_count\<rparr>))))"

section \<open>Screener (news\_screener.py, FyersNewsScreener)\<close>

text \<open>
  The module constants read from the environment at import time, with their defaults.
\<close>

record config =
  VOLUME_SURGE_THRESHOLD :: real
  PRICE_CHANGE_MIN :: real
  PRICE_CHANGE_MAX :: real
  LOOKBACK_DAYS :: int
  MIN_PRICE :: real
  MAX_PRICE :: real

definition default_config :: config where
  "default_config =
     \<lparr>VOLUME_SURGE_THRESHOLD = 1.5, PRICE_CHANGE_MIN = 1.0, PRICE_CHANGE_MAX = 20.0,
      LOOKBACK_DAYS = 5, MIN_PRICE = 10, MAX_PRICE = 10000\<rparr>"

text \<open>A row of the candle data frame and the dictionary built by \<open>get_current_quote\<close>.\<close>

record candle =
  timestamp :: real
  open_price :: real
  high :: real
  low :: real
  close_price :: real
  volume :: real

record quote =
  ltp :: real
  quote_volume :: real
  change_percent :: real
  prev_close :: real

text \<open>
  \<open>Series.mean()\<close>. It is only called after the \<open>len(df) < 10\<close> guard, on at least nine
  values, so the empty case (NaN in pandas, 0 here) is never reached.
\<close>

definition mean :: "real list \<Rightarrow> real" where
  "mean xs = sum_list xs / real (length xs)"

text \<open>
  \<open>analyze_volume_and_price\<close>: \<open>Inr None\<close> is the returned \<open>None\<close>, \<open>Inr (Some a)\<close> the
  returned dictionary, \<open>Inl e\<close> an exception leaving the function.
\<close>

definition analyze_volume_and_price ::
  "candle list option \<Rightarrow> quote \<Rightarrow> py_error + analysis option" where
  "analyze_volume_and_price df current_quote =
     (case df of
        None \<Rightarrow> Inr None
      | Some rows \<Rightarrow>
          if length rows < 10 then Inr None
          else
            (let avg_vol = mean (map volume (butlast rows));
                 cur_vol = quote_volume current_quote
             in case (if avg_vol > 0 then py_div cur_vol avg_vol else Inr 0) of
                  Inl e \<Rightarrow> Inl e
                | Inr vol_ratio \<Rightarrow>
                    (let price_chg = change_percent current_quote;
                         avg_range = mean (map (\<lambda>c. high c - low c) rows);
                         current_range = \<bar>ltp current_quote - prev_close current_quote\<bar>
                     in case (if avg_range > 0 then py_div current_range avg_range
                              else Inr 0) of
                          Inl e \<Rightarrow> Inl e
                        | Inr rng_ratio \<Rightarrow>
                            Inr (Some \<lparr>volume_ratio = vol_ratio, price_change = price_chg,
                                       range_ratio = rng_ratio, avg_volume = avg_vol,
                                       current_volume = cur_vol\<rparr>))))"

text \<open>The dictionary returned by \<open>determine_signal\<close>.\<close>

record trade_signal =
  signal :: string
  action :: string
  strength :: string

definition determine_signal :: "config \<Rightarrow> analysis option \<Rightarrow> nat \<Rightarrow> trade_signal option" where
  "determine_signal cfg an news_count =
     (case an of
        None \<Rightarrow> None
      | Some a \<Rightarrow>
          (let volume_surge = (volume_ratio a \<ge> VOLUME_SURGE_THRESHOLD cfg);
               abs_change = \<bar>price_change a\<bar>;
               significant_move = (PRICE_CHANGE_MIN cfg \<le> abs_change \<and> abs_change \<le> PRICE_CHANGE_MAX cfg);
               has_news = (news_count > 0)
           in if volume_surge \<and> significant_move then
                (let signal_strength = (if volume_ratio a > 3 then ''STRONG'' else ''MODERATE'');
                     signal_strength = (if has_news then ''VERY STRONG'' else signal_strength)
                 in if price_change a > 0
                    then Some \<lparr>signal = ''BULLISH'', action = ''BUY (Delivery)'',
                               strength = signal_strength\<rparr>
                    else Some \<lparr>signal = ''BEARISH'', action = ''SELL (Intraday)'',
                               strength = signal_strength\<rparr>)
              else None))"

definition get_nse_symbols :: "string list" where
  "get_nse_symbols =
     [''NSE:RELIANCE-EQ'', ''NSE:TCS-EQ'', ''NSE:HDFCBANK-EQ'', ''NSE:INFY-EQ'',
      ''NSE:ICICIBANK-EQ'', ''NSE:HINDUNILVR-EQ'', ''NSE:SBIN-EQ'', ''NSE:BHARTIARTL-EQ'',
      ''NSE:ITC-EQ'', ''NSE:KOTAKBANK-EQ'', ''NSE:LT-EQ'', ''NSE:AXISBANK-EQ'',
      ''NSE:ASIANPAINT-EQ'', ''NSE:MARUTI-EQ'', ''NSE:BAJFINANCE-EQ'', ''NSE:HCLTECH-EQ'',
      ''NSE:WIPRO-EQ'', ''NSE:ULTRACEMCO-EQ'', ''NSE:TITAN-EQ'', ''NSE:NESTLEIND-EQ'',
      ''NSE:SUNPHARMA-EQ'', ''NSE:TATAMOTORS-EQ'', ''NSE:ONGC-EQ'', ''NSE:NTPC-EQ'',
      ''NSE:POWERGRID-EQ'', ''NSE:M&M-EQ'', ''NSE:BAJAJFINSV-EQ'', ''NSE:TECHM-EQ'',
      ''NSE:ADANIPORTS-EQ'', ''NSE:COALINDIA-EQ'', ''NSE:DIVISLAB-EQ'', ''NSE:DRREDDY-EQ'',
      ''NSE:CIPLA-EQ'', ''NSE:EICHERMOT-EQ'', ''NSE:GRASIM-EQ'', ''NSE:HINDALCO-EQ'',
      ''NSE:INDUSINDBK-EQ'', ''NSE:JSWSTEEL-EQ'', ''NSE:TATASTEEL-EQ'', ''NSE:TATACONSUM-EQ'',
      ''NSE:HEROMOTOCO-EQ'', ''NSE:BRITANNIA-EQ'', ''NSE:UPL-EQ'', ''NSE:APOLLOHOSP-EQ'',
      ''NSE:ADANIENT-EQ'', ''NSE:ADANIGREEN-EQ'', ''NSE:ADANITRANS-EQ'', ''NSE:BAJAJ-AUTO-EQ'',
      ''NSE:BEL-EQ'', ''NSE:BPCL-EQ'', ''NSE:VEDL-EQ'', ''NSE:IOC-EQ'']"

text \<open>
  \<open>str.replace(old, new)\<close> for a non-empty \<open>old\<close>: occurrences are replaced from the left
  and do not overlap. The counter is the number of characters of a matched occurrence
  still to be skipped.
\<close>

fun replace_from :: "string \<Rightarrow> string \<Rightarrow> nat \<Rightarrow> string \<Rightarrow> string" where
  "replace_from old new k [] = []"
| "replace_from old new (Suc k) (c # cs) = replace_from old new k cs"
| "replace_from old new 0 (c # cs) =
     (if prefix old (c # cs) then new @ replace_from old new (length old - 1) cs
      else c # replace_from old new 0 cs)"

definition py_replace :: "string \<Rightarrow> string \<Rightarrow> string \<Rightarrow> string" where
  "py_replace s old new = replace_from old new 0 s"

text \<open>
  The dictionary \<open>stock_data\<close> appended for a symbol with a signal. Its keys \<open>symbol\<close>,
  \<open>name\<close>, \<open>ltp\<close>, \<open>price_change\<close>, \<open>volume_ratio\<close>, \<open>signal\<close>, \<open>action\<close>, \<open>strength\<close>,
  \<open>news\<close> and \<open>timestamp\<close> carry the prefix \<open>stock_\<close> here, since the other records
  have fields of these names.
\<close>

record stock =
  stock_symbol :: string
  stock_name :: string
  stock_ltp :: real
  stock_price_change :: real
  stock_volume_ratio :: real
  stock_signal :: string
  stock_action :: string
  stock_strength :: string
  news_count :: nat
  stock_news :: "article list"
  stock_timestamp :: string

text \<open>
  What the outside world answers for one symbol during one scan: the results of
  \<open>get_historical_data\<close>, \<open>get_current_quote\<close> and \<open>fetch_news_for_stock\<close> (each catches its
  own exceptions and returns \<open>None\<close> or the empty list), and the clock reading.
\<close>

record responses =
  history :: "candle list option"
  current_quote :: "quote option"
  news :: "article list"
  now :: string

text \<open>The two attributes of a \<open>FyersNewsScreener\<close> that the scan writes, as \<open>__init__\<close> sets them.\<close>

record scanner =
  screened_stocks :: "stock list"
  is_scanning :: bool

definition new_scanner :: scanner where
  "new_scanner = \<lparr>screened_stocks = [], is_scanning = False\<rparr>"

text \<open>
  The body of the \<open>for symbol in symbols\<close> loop of \<open>scan_stocks\<close>, as a function of the
  stocks found so far: each \<open>continue\<close> leaves the list as it is, a signal appends one
  entry, and an exception in the body is caught by \<open>except Exception\<close>, which continues
  with the next symbol. The counters of the loop are only logged and are left out.
\<close>

definition scan_symbol :: "config \<Rightarrow> (string \<Rightarrow> responses) \<Rightarrow> string \<Rightarrow> stock list \<Rightarrow> stock list" where
  "scan_symbol cfg env symbol found =
     (case history (env symbol) of
        None \<Rightarrow> found
      | Some df \<Rightarrow>
          (case current_quote (env symbol) of
             None \<Rightarrow> found
           | Some q \<Rightarrow>
               if ltp q < MIN_PRICE cfg \<or> ltp q > MAX_PRICE cfg then found
               else
                 (case analyze_volume_and_price (Some df) q of
                    Inl e \<Rightarrow> found
                  | Inr None \<Rightarrow> found
                  | Inr (Some a) \<Rightarrow>
                      (let nws = news (env symbol) in
                       case determine_signal cfg (Some a) (length nws) of
                         None \<Rightarrow> found
                       | Some sg \<Rightarrow>
                           found @
                           [\<lparr>stock_symbol = symbol,
                             stock_name = py_replace (py_replace symbol ''NSE:'' []) ''-EQ'' [],
                             stock_ltp = ltp q,
                             stock_price_change = price_change a,
                             stock_volume_ratio = volume_ratio a,
                             stock_signal = signal sg,
                             stock_action = action sg,
                             stock_strength = strength sg,
                             news_count = length nws,
                             stock_news = take 3 nws,
                             stock_timestamp = now (env symbol)\<rparr>]))))"

text \<open>The first two statements of \<open>scan_stocks\<close>.\<close>

definition scan_begin :: "scanner \<Rightarrow> scanner" where
  "scan_begin s = (s\<lparr>is_scanning := True\<rparr>)\<lparr>screened_stocks := []\<rparr>"

text \<open>The loop over a list of symbols, writing \<open>self.screened_stocks\<close> at every iteration.\<close>

definition scan_loop :: "config \<Rightarrow> (string \<Rightarrow> responses) \<Rightarrow> string list \<Rightarrow> scanner \<Rightarrow> scanner" where
  "scan_loop cfg env symbols s =
     fold (\<lambda>symbol st. st\<lparr>screened_stocks := scan_symbol cfg env symbol (screened_stocks st)\<rparr>)
       symbols s"

text \<open>
  \<open>list.sort(key=..., reverse=True)\<close>: the list is reversed, sorted stably in ascending
  order of the key, and reversed again.
\<close>

definition py_sort_reverse :: "('a \<Rightarrow> real) \<Rightarrow> 'a list \<Rightarrow> 'a list" where
  "py_sort_reverse key xs = rev (sort_key key (rev xs))"

text \<open>The statements of \<open>scan_stocks\<close> after the loop.\<close>

definition scan_finish :: "scanner \<Rightarrow> scanner" where
  "scan_finish s =
     (s\<lparr>screened_stocks := py_sort_reverse stock_volume_ratio (screened_stocks s)\<rparr>)
       \<lparr>is_scanning := False\<rparr>"

text \<open>\<open>scan_stocks\<close>: the scanner after the call; the value returned is its \<open>screened_stocks\<close>.\<close>

definition scan_stocks :: "config \<Rightarrow> (string \<Rightarrow> responses) \<Rightarrow> scanner \<Rightarrow> scanner" where
  "scan_stocks cfg env s = scan_finish (scan_loop cfg env get_nse_symbols (scan_begin s))"

text \<open>The scanner as another thread sees it when the scan has gone through \<open>n\<close> symbols.\<close>

definition mid_scan :: "config \<Rightarrow> (string \<Rightarrow> responses) \<Rightarrow> scanner \<Rightarrow> nat \<Rightarrow> scanner" where
  "mid_scan cfg env s n = scan_loop cfg env (take n get_nse_symbols) (scan_begin s)"

text \<open>The stocks a scan finds in the first \<open>n\<close> symbols, in the order of discovery.\<close>

definition discovered :: "config \<Rightarrow> (string \<Rightarrow> responses) \<Rightarrow> nat \<Rightarrow> stock list" where
  "discovered cfg env n = fold (scan_symbol cfg env) (take n get_nse_symbols) []"

section \<open>Web routes (news\_screener.py and app.py)\<close>

text \<open>
  The global \<open>screener\<close> (\<open>news_screener\<close> in app.py) and the number of background threads
  started with \<open>scan_stocks\<close> as their target. A started thread runs \<open>scan_stocks\<close> once,
  on its own schedule. A response is the JSON object and the HTTP status.
\<close>

record server =
  screener :: "scanner option"
  scan_threads :: nat

datatype jvalue = JStr string | JBool bool | JNum nat | JStocks "stock list"

type_synonym response = "(string \<times> jvalue) list \<times> nat"

definition start_scan :: "server \<Rightarrow> response \<times> server" where
  "start_scan sv =
     (case screener sv of
        None \<Rightarrow> (([(''error'', JStr ''Fyers not authenticated'')], 401), sv)
      | Some sc \<Rightarrow>
          if is_scanning sc
          then (([(''message'', JStr ''Scan already in progress'')], 400), sv)
          else (([(''message'', JStr ''Scan started'')], 200),
                sv\<lparr>scan_threads := scan_threads sv + 1\<rparr>))"

definition get_results :: "server \<Rightarrow> response" where
  "get_results sv =
     (case screener sv of
        None \<Rightarrow> ([(''error'', JStr ''Fyers not authenticated'')], 401)
      | Some sc \<Rightarrow>
          ([(''is_scanning'', JBool (is_scanning sc)),
            (''stocks'', JStocks (screened_stocks sc)),
            (''count'', JNum (length (screened_stocks sc)))], 200))"

text \<open>
  \<open>start_screener_scan\<close> of app.py. \<open>session_token\<close> is the session's \<open>access_token\<close>, if
  any; \<open>init_error\<close> is the message of the exception that constructing a
  \<open>FyersNewsScreener\<close> raises, if it raises.
\<close>

definition start_screener_scan :: "string option \<Rightarrow> string option \<Rightarrow> server \<Rightarrow> response \<times> server" where
  "start_screener_scan session_token init_error sv =
     (let go = (\<lambda>sc sv'.
            if is_scanning sc
            then (([(''message'', JStr ''Scan already in progress'')], 400), sv')
            else (([(''message'', JStr ''Scan started''), (''status'', JStr ''scanning'')], 200),
                  sv'\<lparr>scan_threads := scan_threads sv' + 1\<rparr>))
      in case screener sv of
           Some sc \<Rightarrow> go sc sv
         | None \<Rightarrow>
             (case session_token of
                None \<Rightarrow>
                  (([(''error'', JStr ''Screener not initialized. Please login first.'')], 401), sv)
              | Some access_token \<Rightarrow>
                  (case init_error of
                     Some msg \<Rightarrow>
                       (([(''error'', JStr (''Failed to initialize screener: '' @ msg))], 500), sv)
                   | None \<Rightarrow> go new_scanner (sv\<lparr>screener := Some new_scanner\<rparr>))))"

section \<open>Concrete inputs used by the examples\<close>

definition quiet_analysis :: analysis where
  "quiet_analysis =
     \<lparr>volume_ratio = 1, price_change = 0, range_ratio = 0, avg_volume = 100,
      current_volume = 100\<rparr>"

definition extreme_analysis :: analysis where
  "extreme_analysis =
     \<lparr>volume_ratio = 1000, price_change = 50, range_ratio = 3, avg_volume = 1,
      current_volume = 1000\<rparr>"

definition extreme_summary :: summary where
  "extreme_summary =
     \<lparr>sentiment = ''Highly Positive'', sentiment_score = 1, category = ''Contract News'',
      is_major = True, positive_keywords = 3, negative_keywords = 0\<rparr>"

definition lukewarm_analysis :: analysis where
  "lukewarm_analysis =
     \<lparr>volume_ratio = 2, price_change = 5, range_ratio = 0, avg_volume = 100,
      current_volume = 200\<rparr>"

definition flat_candle :: candle where
  "flat_candle =
     \<lparr>timestamp = 0, open_price = 10, high = 10, low = 9, close_price = 10, volume = 0\<rparr>"

definition busy_quote :: quote where
  "busy_quote = \<lparr>ltp = 100, quote_volume = 400, change_percent = 5, prev_close = 95\<rparr>"

text \<open>
  A world in which three symbols have ten candles of volume 100 and a quote with a volume
  surge, and every other symbol has no data; the three stocks a scan then finds.
\<close>

definition steady_history :: "candle list" where
  "steady_history = replicate 10 (flat_candle\<lparr>volume := 100\<rparr>)"

definition no_answer :: responses where
  "no_answer = \<lparr>history = None, current_quote = None, news = [], now = ''2024-01-01 10:00:00''\<rparr>"

definition three_signals :: "string \<Rightarrow> responses" where
  "three_signals symbol =
     (if symbol = ''NSE:TCS-EQ''
      then no_answer\<lparr>history := Some steady_history, current_quote := Some busy_quote\<rparr>
      else if symbol = ''NSE:INFY-EQ''
      then no_answer\<lparr>history := Some steady_history,
             current_quote := Some (busy_quote\<lparr>change_percent := - 2\<rparr>)\<rparr>
      else if symbol = ''NSE:SBIN-EQ''
      then no_answer\<lparr>history := Some steady_history,
             current_quote := Some (busy_quote\<lparr>quote_volume := 800\<rparr>)\<rparr>
      else no_answer)"

definition tcs_stock :: stock where
  "tcs_stock =
     \<lparr>stock_symbol = ''NSE:TCS-EQ'', stock_name = ''TCS'', stock_ltp = 100,
      stock_price_change = 5, stock_volume_ratio = 4, stock_signal = ''BULLISH'',
      stock_action = ''BUY (Delivery)'', stock_strength = ''STRONG'', news_count = 0,
      stock_news = [], stock_timestamp = ''2024-01-01 10:00:00''\<rparr>"

definition infy_stock :: stock where
  "infy_stock =
     \<lparr>stock_symbol = ''NSE:INFY-EQ'', stock_name = ''INFY'', stock_ltp = 100,
      stock_price_change = - 2, stock_volume_ratio = 4, stock_signal = ''BEARISH'',
      stock_action = ''SELL (Intraday)'', stock_strength = ''STRONG'', news_count = 0,
      stock_news = [], stock_timestamp = ''2024-01-01 10:00:00''\<rparr>"

definition sbin_stock :: stock where
  "sbin_stock =
     \<lparr>stock_symbol = ''NSE:SBIN-EQ'', stock_name = ''SBIN'', stock_ltp = 100,
      stock_price_change = 5, stock_volume_ratio = 8, stock_signal = ''BULLISH'',
      stock_action = ''BUY (Delivery)'', stock_strength = ''STRONG'', news_count = 0,
      stock_news = [], stock_timestamp = ''2024-01-01 10:00:00''\<rparr>"

text \<open>An authenticated server whose scanner is idle and has no results yet.\<close>

definition idle_server :: server where
  "idle_server = \<lparr>screener = Some new_scanner, scan_threads = 0\<rparr>"

definition contract_article :: article where
  "contract_article = \<lparr>title = Some ''TCS Wins Big Contract'', description = Some ''Shares fall''\<rparr>"

section \<open>Properties of the scorer\<close>

lemma volume_points_range: "10 \<le> volume_points vr \<and> volume_points vr \<le> 30"
  by (simp add: volume_points_def)

lemma price_points_range: "10 \<le> price_points pc \<and> price_points pc \<le> 25"
  by (simp add: price_points_def)

lemma range_points_range: "0 \<le> range_points rr \<and> range_points rr \<le> 20"
  by (simp add: range_points_def)

lemma news_points_range: "news_points ns = Inr np \<Longrightarrow> 0 \<le> np \<and> np \<le> 25"
  by (cases ns) (auto split: if_splits)

lemma score_unfold:
  "news_points ns = Inr np \<Longrightarrow>
   calculate_strength_score (Some a) ns =
     Inr (min (volume_points (volume_ratio a) + price_points \<bar>price_change a\<bar> + np
               + range_points (range_ratio a)) 100)"
  by (simp add: calculate_strength_score_def Let_def)

lemma score_Inr_news:
  "calculate_strength_score (Some a) ns = Inr n \<Longrightarrow> \<exists>np. news_points ns = Inr np"
  by (cases "news_points ns") (simp_all add: calculate_strength_score_def Let_def)

text \<open>
  C3. The summary of an empty article list is the string \<open>"No recent news"\<close>, and the
  scorer given that string does not return a score: the string is truthy, so the news
  block is entered and \<open>news_summary.get\<close> raises AttributeError, for every analysis
  record.
\<close>

theorem sentinel_score_raises:
  "get_news_summary [] = Inr (SummaryStr no_news) \<and>
   calculate_strength_score (Some a) (SummaryStr no_news) = Inl AttributeError"
  by (simp add: get_news_summary_def calculate_strength_score_def no_news_def)

text \<open>
  C4. For every analysis record and every summary dictionary (any volume ratio, price
  change, range ratio, major flag and sentiment score) the scorer returns an integer
  between 0 and 100.
\<close>

theorem strength_score_in_range:
  "\<exists>n. calculate_strength_score (Some a) (SummaryDict d) = Inr n \<and> 0 \<le> n \<and> n \<le> 100"
proof -
  obtain np where np: "news_points (SummaryDict d) = Inr np" by simp
  have "0 \<le> np" using news_points_range [OF np] by simp
  moreover have "10 \<le> volume_points (volume_ratio a)" using volume_points_range by simp
  moreover have "10 \<le> price_points \<bar>price_change a\<bar>" using price_points_range by simp
  moreover have "0 \<le> range_points (range_ratio a)" using range_points_range by simp
  ultimately show ?thesis
    unfolding score_unfold [OF np] by simp
qed

theorem strength_score_in_range_witness:
  "calculate_strength_score (Some extreme_analysis) (SummaryDict extreme_summary) = Inr 100"
  using strength_score_in_range [of extreme_analysis extreme_summary]
  by (simp add: calculate_strength_score_def volume_points_def price_points_def
        range_points_def extreme_analysis_def extreme_summary_def)

text \<open>
  C10. Whenever the scorer returns a score for an analysis record, the score is at least
  20 (and at most 100): the volume and the price-change component give at least 10 each.
\<close>

theorem strength_score_at_least_20:
  "calculate_strength_score (Some a) ns = Inr n \<Longrightarrow> 20 \<le> n \<and> n \<le> 100"
proof -
  assume r: "calculate_strength_score (Some a) ns = Inr n"
  then obtain np where np: "news_points ns = Inr np" using score_Inr_news by blast
  have "0 \<le> np" using news_points_range [OF np] by simp
  moreover have "10 \<le> volume_points (volume_ratio a)" using volume_points_range by simp
  moreover have "10 \<le> price_points \<bar>price_change a\<bar>" using price_points_range by simp
  moreover have "0 \<le> range_points (range_ratio a)" using range_points_range by simp
  ultimately show ?thesis
    using r unfolding score_unfold [OF np] by auto
qed

theorem strength_score_at_least_20_witness:
  "calculate_strength_score (Some quiet_analysis) PyNone = Inr 20 \<and> (20::int) \<le> 20"
proof -
  have h: "calculate_strength_score (Some quiet_analysis) PyNone = Inr 20"
    by (simp add: calculate_strength_score_def volume_points_def price_points_def
          range_points_def quiet_analysis_def)
  show ?thesis using h strength_score_at_least_20 [OF h] by simp
qed

section \<open>Properties of the volume and price analysis\<close>

lemma py_div_zero: "py_div x 0 = Inl ZeroDivisionError"
  by (simp add: py_div_def)

lemma analysis_long_history:
  "10 \<le> length rows \<Longrightarrow>
   analyze_volume_and_price (Some rows) q =
     Inr (Some
       \<lparr>volume_ratio =
          (if mean (map volume (butlast rows)) > 0
           then quote_volume q / mean (map volume (butlast rows)) else 0),
        price_change = change_percent q,
        range_ratio =
          (if mean (map (\<lambda>c. high c - low c) rows) > 0
           then \<bar>ltp q - prev_close q\<bar> / mean (map (\<lambda>c. high c - low c) rows) else 0),
        avg_volume = mean (map volume (butlast rows)),
        current_volume = quote_volume q\<rparr>)"
  by (simp add: analyze_volume_and_price_def Let_def py_div_def)

lemma analysis_short_history:
  "length rows < 10 \<Longrightarrow> analyze_volume_and_price (Some rows) q = Inr None"
  by (simp add: analyze_volume_and_price_def)

lemma analysis_no_history: "analyze_volume_and_price None q = Inr None"
  by (simp add: analyze_volume_and_price_def)

lemma flat_history_mean: "mean (map volume (butlast (replicate 10 flat_candle))) = 0"
  by (simp add: mean_def flat_candle_def numeral_eq_Suc)

lemma flat_history_analysis:
  "analyze_volume_and_price (Some (replicate 10 flat_candle)) busy_quote =
     Inr (Some \<lparr>volume_ratio = 0, price_change = 5, range_ratio = 5, avg_volume = 0,
                current_volume = 400\<rparr>)"
  by (simp add: analyze_volume_and_price_def Let_def py_div_def mean_def flat_candle_def
        busy_quote_def numeral_eq_Suc)

text \<open>
  C6. The analysis never leaves with a division by zero (or any other exception),
  whatever the history and the quote; and for every history of at least 10 candles whose
  historical volumes (all candles but the most recent one) have mean zero, it returns a
  record whose volume ratio is 0. Here a division by zero is a failure of the model, so
  the statement depends on the guard \<open>avg_volume > 0\<close>.
\<close>

theorem volume_ratio_zero_on_zero_mean:
  "(\<forall>e. analyze_volume_and_price df q \<noteq> Inl e) \<and>
   (\<forall>rows. df = Some rows \<and> 10 \<le> length rows \<and> mean (map volume (butlast rows)) = 0 \<longrightarrow>
      (\<exists>a. analyze_volume_and_price df q = Inr (Some a) \<and> volume_ratio a = 0))"
proof (intro conjI allI impI)
  fix e
  show "analyze_volume_and_price df q \<noteq> Inl e"
  proof (cases df)
    case None
    then show ?thesis by (simp add: analysis_no_history)
  next
    case (Some rows)
    show ?thesis
    proof (cases "length rows < 10")
      case True
      with Some show ?thesis by (simp add: analysis_short_history)
    next
      case False
      then have "10 \<le> length rows" by simp
      with Some show ?thesis by (simp add: analysis_long_history)
    qed
  qed
next
  fix rows
  assume h: "df = Some rows \<and> 10 \<le> length rows \<and> mean (map volume (butlast rows)) = 0"
  then have "10 \<le> length rows" by simp
  from analysis_long_history [OF this, of q] h
  show "\<exists>a. analyze_volume_and_price df q = Inr (Some a) \<and> volume_ratio a = 0"
    by simp
qed

theorem volume_ratio_zero_on_zero_mean_witness:
  "10 \<le> length (replicate 10 flat_candle) \<and>
   mean (map volume (butlast (replicate 10 flat_candle))) = 0 \<and>
   analyze_volume_and_price (Some (replicate 10 flat_candle)) busy_quote =
     Inr (Some \<lparr>volume_ratio = 0, price_change = 5, range_ratio = 5, avg_volume = 0,
                current_volume = 400\<rparr>)"
  using volume_ratio_zero_on_zero_mean [of "Some (replicate 10 flat_candle)" busy_quote]
    flat_history_analysis flat_history_mean
  by simp

text \<open>
  C9. The analysis returns \<open>None\<close> exactly when the candle history is absent or has fewer
  than 10 candles; with 10 or more candles it returns a record filled from the quote and
  the history.
\<close>

theorem analysis_none_iff_short_history:
  "(analyze_volume_and_price df q = Inr None
      \<longleftrightarrow> (case df of None \<Rightarrow> True | Some rows \<Rightarrow> length rows < 10)) \<and>
   (\<forall>rows. df = Some rows \<and> 10 \<le> length rows \<longrightarrow>
      (\<exists>a. analyze_volume_and_price df q = Inr (Some a) \<and>
           price_change a = change_percent q \<and>
           current_volume a = quote_volume q \<and>
           avg_volume a = mean (map volume (butlast rows))))"
proof (cases df)
  case None
  then show ?thesis by (simp add: analysis_no_history)
next
  case (Some rows)
  show ?thesis
  proof (cases "length rows < 10")
    case True
    with Some show ?thesis by (simp add: analysis_short_history)
  next
    case False
    then have "10 \<le> length rows" by simp
    from analysis_long_history [OF this, of q] Some False show ?thesis by simp
  qed
qed

theorem analysis_none_iff_short_history_witness:
  "10 \<le> length (replicate 10 flat_candle) \<and>
   analyze_volume_and_price (Some (replicate 10 flat_candle)) busy_quote \<noteq> Inr None \<and>
   analyze_volume_and_price (Some (replicate 9 flat_candle)) busy_quote = Inr None"
  using analysis_none_iff_short_history [of "Some (replicate 10 flat_candle)" busy_quote]
    analysis_none_iff_short_history [of "Some (replicate 9 flat_candle)" busy_quote]
  by simp

section \<open>Properties of the signal determiner\<close>

text \<open>
  C2, as the code has it. When the volume ratio reaches the surge threshold and the
  absolute price change lies within the configured bounds, a signal is returned whose
  strength is VERY STRONG exactly when there is at least one news article (whatever the
  volume ratio), STRONG exactly when the volume ratio exceeds 3 and there is no news, and
  MODERATE exactly when the volume ratio does not exceed 3 and there is no news.
\<close>

theorem signal_strength_by_news:
  "VOLUME_SURGE_THRESHOLD cfg \<le> volume_ratio a \<Longrightarrow>
   PRICE_CHANGE_MIN cfg \<le> \<bar>price_change a\<bar> \<Longrightarrow>
   \<bar>price_change a\<bar> \<le> PRICE_CHANGE_MAX cfg \<Longrightarrow>
   \<exists>sg. determine_signal cfg (Some a) n = Some sg \<and>
        (strength sg = ''VERY STRONG'' \<longleftrightarrow> n > 0) \<and>
        (strength sg = ''STRONG'' \<longleftrightarrow> volume_ratio a > 3 \<and> n = 0) \<and>
        (strength sg = ''MODERATE'' \<longleftrightarrow> \<not> volume_ratio a > 3 \<and> n = 0)"
  by (simp add: determine_signal_def Let_def)

theorem signal_strength_by_news_witness:
  "VOLUME_SURGE_THRESHOLD default_config \<le> volume_ratio lukewarm_analysis \<and>
   PRICE_CHANGE_MIN default_config \<le> \<bar>price_change lukewarm_analysis\<bar> \<and>
   \<bar>price_change lukewarm_analysis\<bar> \<le> PRICE_CHANGE_MAX default_config \<and>
   (\<exists>sg. determine_signal default_config (Some lukewarm_analysis) 0 = Some sg \<and>
         strength sg = ''MODERATE'')"
proof -
  have h1: "VOLUME_SURGE_THRESHOLD default_config \<le> volume_ratio lukewarm_analysis"
    by (simp add: default_config_def lukewarm_analysis_def)
  have h2: "PRICE_CHANGE_MIN default_config \<le> \<bar>price_change lukewarm_analysis\<bar>"
    by (simp add: default_config_def lukewarm_analysis_def)
  have h3: "\<bar>price_change lukewarm_analysis\<bar> \<le> PRICE_CHANGE_MAX default_config"
    by (simp add: default_config_def lukewarm_analysis_def)
  have "\<not> volume_ratio lukewarm_analysis > 3" by (simp add: lukewarm_analysis_def)
  with signal_strength_by_news [OF h1 h2 h3, of 0] h1 h2 h3 show ?thesis by auto
qed

text \<open>
  C2, as the claim states it, fails: with default thresholds, a volume ratio of 2 (not
  above 3), a price change of 5 and one news article, the strength is VERY STRONG.
\<close>

theorem very_strong_without_surge_counterexample:
  "determine_signal default_config (Some lukewarm_analysis) 1 =
     Some \<lparr>signal = ''BULLISH'', action = ''BUY (Delivery)'', strength = ''VERY STRONG''\<rparr> \<and>
   \<not> volume_ratio lukewarm_analysis > 3"
  by (simp add: determine_signal_def default_config_def lukewarm_analysis_def Let_def)

section \<open>Properties of the scan\<close>

lemmas example_defs = scan_symbol_def three_signals_def no_answer_def steady_history_def
  analyze_volume_and_price_def py_div_def Let_def mean_def flat_candle_def busy_quote_def
  numeral_eq_Suc default_config_def determine_signal_def py_replace_def

lemma three_signals_tcs:
  "scan_symbol default_config three_signals ''NSE:TCS-EQ'' found = found @ [tcs_stock]"
  by (simp add: example_defs tcs_stock_def)

lemma three_signals_infy:
  "scan_symbol default_config three_signals ''NSE:INFY-EQ'' found = found @ [infy_stock]"
  by (simp add: example_defs infy_stock_def)

lemma three_signals_sbin:
  "scan_symbol default_config three_signals ''NSE:SBIN-EQ'' found = found @ [sbin_stock]"
  by (simp add: example_defs sbin_stock_def)

lemma three_signals_other:
  "symbol \<noteq> ''NSE:TCS-EQ'' \<Longrightarrow> symbol \<noteq> ''NSE:INFY-EQ'' \<Longrightarrow> symbol \<noteq> ''NSE:SBIN-EQ'' \<Longrightarrow>
   scan_symbol default_config three_signals symbol found = found"
  by (simp add: scan_symbol_def three_signals_def no_answer_def)

lemma three_signals_discovered:
  "discovered default_config three_signals (length get_nse_symbols) = [tcs_stock, infy_stock, sbin_stock]"
  by (simp add: discovered_def get_nse_symbols_def three_signals_tcs three_signals_infy
        three_signals_sbin three_signals_other)

lemma three_signals_first_two:
  "discovered default_config three_signals 2 = [tcs_stock]"
  by (simp add: discovered_def get_nse_symbols_def three_signals_tcs three_signals_other numeral_eq_Suc)

lemma three_signals_sorted:
  "py_sort_reverse stock_volume_ratio [tcs_stock, infy_stock, sbin_stock] = [sbin_stock, tcs_stock, infy_stock]"
  by (simp add: py_sort_reverse_def tcs_stock_def infy_stock_def sbin_stock_def)


lemma scan_loop_stocks:
  "screened_stocks (scan_loop cfg env symbols s) =
     fold (scan_symbol cfg env) symbols (screened_stocks s)"
  unfolding scan_loop_def by (induction symbols arbitrary: s) simp_all

lemma scan_loop_flag: "is_scanning (scan_loop cfg env symbols s) = is_scanning s"
  unfolding scan_loop_def by (induction symbols arbitrary: s) simp_all

lemma mid_scan_stocks: "screened_stocks (mid_scan cfg env s n) = discovered cfg env n"
  by (simp add: mid_scan_def scan_loop_stocks scan_begin_def discovered_def)

lemma discovered_0: "discovered cfg env 0 = []"
  by (simp add: discovered_def)

lemma mid_scan_flag: "is_scanning (mid_scan cfg env s n)"
  by (simp add: mid_scan_def scan_loop_flag scan_begin_def)

lemma scan_stocks_result:
  "screened_stocks (scan_stocks cfg env s) =
     py_sort_reverse stock_volume_ratio (discovered cfg env (length get_nse_symbols))"
  by (simp add: scan_stocks_def scan_finish_def scan_loop_stocks scan_begin_def discovered_def)

lemma scan_stocks_flag: "\<not> is_scanning (scan_stocks cfg env s)"
  by (simp add: scan_stocks_def scan_finish_def)






text \<open>
  C1, as the code has it, for a scan that runs alone (no other scan thread works on the
  same scanner meanwhile). While the scan runs, \<open>get_results\<close> shows the stocks that scan
  has discovered so far, in the order of discovery, starting from the empty list when
  the scan starts; whatever the previous scan had published is gone. When the scan has
  completed, \<open>get_results\<close> shows the discoveries of that scan, sorted.
\<close>

theorem visible_results_follow_running_scan:
  "get_results \<lparr>screener = Some (mid_scan cfg env s n), scan_threads = t\<rparr> =
     ([(''is_scanning'', JBool True),
       (''stocks'', JStocks (discovered cfg env n)),
       (''count'', JNum (length (discovered cfg env n)))], 200) \<and>
   discovered cfg env 0 = [] \<and>
   get_results \<lparr>screener = Some (scan_stocks cfg env s), scan_threads = t\<rparr> =
     ([(''is_scanning'', JBool False),
       (''stocks'', JStocks (py_sort_reverse stock_volume_ratio
                              (discovered cfg env (length get_nse_symbols)))),
       (''count'', JNum (length (discovered cfg env (length get_nse_symbols))))], 200)"
  by (simp add: get_results_def mid_scan_stocks mid_scan_flag scan_stocks_result
        scan_stocks_flag discovered_def py_sort_reverse_def)

theorem visible_results_follow_running_scan_witness:
  "get_results \<lparr>screener = Some (mid_scan default_config three_signals new_scanner 2),
                scan_threads = 1\<rparr> =
     ([(''is_scanning'', JBool True), (''stocks'', JStocks [tcs_stock]),
       (''count'', JNum 1)], 200)"
  using visible_results_follow_running_scan [of default_config three_signals new_scanner 2 1]
  by (simp add: three_signals_first_two)

text \<open>
  C1, as the claim states it, fails: after a completed scan has published three stocks,
  the first statements of the next scan leave \<open>get_results\<close> with an empty list, not
  with the snapshot of the completed scan.
\<close>

theorem scan_start_clears_results_counterexample:
  "screened_stocks (scan_stocks default_config three_signals new_scanner) =
     [sbin_stock, tcs_stock, infy_stock] \<and>
   get_results
     \<lparr>screener = Some (mid_scan default_config three_signals
                         (scan_stocks default_config three_signals new_scanner) 0),
      scan_threads = 1\<rparr> =
     ([(''is_scanning'', JBool True), (''stocks'', JStocks []), (''count'', JNum 0)], 200)"
  by (simp add: scan_stocks_result three_signals_discovered three_signals_sorted
        get_results_def mid_scan_stocks mid_scan_flag discovered_0)

section \<open>Properties of the scan routes\<close>

text \<open>
  When the scanner exists and its flag \<open>is_scanning\<close> is set, \<open>start_scan\<close> and
  \<open>start_screener_scan\<close> answer 400 "Scan already in progress" and leave the whole state
  as it was.
\<close>

lemma scan_routes_reject_when_flag_set:
  "screener sv = Some sc \<Longrightarrow> is_scanning sc \<Longrightarrow>
   start_scan sv = (([(''message'', JStr ''Scan already in progress'')], 400), sv) \<and>
   start_screener_scan tok err sv =
     (([(''message'', JStr ''Scan already in progress'')], 400), sv)"
  by (simp add: start_scan_def start_screener_scan_def)

text \<open>
  The flag is set by the scan thread (the first statement of \<open>scan_stocks\<close>), not by the
  routes, which only read it and start the thread. On an idle scanner the state a call
  returns still has the flag unset, so a second call on that state starts a second
  thread, whatever the state of the first.
\<close>

lemma start_scan_twice_before_worker_runs:
  "screener sv = Some sc \<Longrightarrow> \<not> is_scanning sc \<Longrightarrow>
   scan_threads (snd (start_scan (snd (start_scan sv)))) = scan_threads sv + 2 \<and>
   scan_threads (snd (start_screener_scan tok err (snd (start_screener_scan tok err sv)))) =
     scan_threads sv + 2"
  by (simp add: start_scan_def start_screener_scan_def)

text \<open>
  C5, the code at the failing input. On an idle scanner, two calls of \<open>start_scan\<close> one
  right after the other, the second on the state the first returns, are both answered
  "Scan started", and two scan threads have been started; the same holds for
  \<open>start_screener_scan\<close>. The second call is not rejected, so two scans run and publish.
\<close>

theorem back_to_back_scans_both_accepted:
  "start_scan idle_server =
     (([(''message'', JStr ''Scan started'')], 200), idle_server\<lparr>scan_threads := 1\<rparr>) \<and>
   start_scan (snd (start_scan idle_server)) =
     (([(''message'', JStr ''Scan started'')], 200), idle_server\<lparr>scan_threads := 2\<rparr>) \<and>
   start_screener_scan None None (snd (start_screener_scan None None idle_server)) =
     (([(''message'', JStr ''Scan started''), (''status'', JStr ''scanning'')], 200),
      idle_server\<lparr>scan_threads := 2\<rparr>)"
  by (simp add: start_scan_def start_screener_scan_def idle_server_def new_scanner_def)

section \<open>Properties of the news analyzer\<close>

lemma score_formula_bounds:
  fixes p n :: nat
  shows "- 1 \<le> (if p + n = 0 then 0 else (real p - real n) / real (p + n)) \<and>
         (if p + n = 0 then 0 else (real p - real n) / real (p + n)) \<le> (1::real)"
  by (simp add: divide_le_eq le_divide_eq)

lemma analyze_sentiment_score:
  "analyze_sentiment arts = Inr (s, p, n) \<Longrightarrow>
   s = (if p + n = 0 then 0 else (real p - real n) / real (p + n))"
  by (auto simp add: analyze_sentiment_def py_div_def Let_def
        split: if_splits sum.splits prod.splits)

lemma analyze_sentiment_bounds:
  assumes "analyze_sentiment arts = Inr (s, p, n)"
  shows "- 1 \<le> s \<and> s \<le> 1 \<and> (p = 0 \<and> n = 0 \<longrightarrow> s = 0)"
proof -
  have s: "s = (if p + n = 0 then 0 else (real p - real n) / real (p + n))"
    using assms by (rule analyze_sentiment_score)
  have "- 1 \<le> s \<and> s \<le> 1"
    unfolding s by (rule score_formula_bounds)
  moreover have "p = 0 \<and> n = 0 \<longrightarrow> s = 0"
    using s by simp
  ultimately show ?thesis by simp
qed

lemma count_keywords_total:
  "\<forall>a \<in> set arts. title a \<noteq> None \<and> description a \<noteq> None \<Longrightarrow>
   \<exists>c. count_keywords arts acc = Inr c"
proof (induction arts arbitrary: acc)
  case Nil
  then show ?case by simp
next
  case (Cons a arts)
  then obtain t d where "title a = Some t" "description a = Some d" by auto
  then have "\<exists>txt. article_text a = Inr txt" by (simp add: article_text_def)
  with Cons show ?case by (cases acc) auto
qed

lemma categorize_news_total:
  "\<forall>a \<in> set arts. title a \<noteq> None \<and> description a \<noteq> None \<Longrightarrow>
   \<exists>c. categorize_news arts = Inr c"
proof (induction arts)
  case Nil
  then show ?case by simp
next
  case (Cons a arts)
  then obtain t d where "title a = Some t" "description a = Some d" by auto
  then have "\<exists>txt. article_text a = Inr txt" by (simp add: article_text_def)
  with Cons show ?case by (auto split: option.splits)
qed

lemma analyze_sentiment_total:
  assumes "\<forall>a \<in> set arts. title a \<noteq> None \<and> description a \<noteq> None"
  shows "\<exists>s p n. analyze_sentiment arts = Inr (s, p, n)"
proof -
  obtain c where "count_keywords arts (0, 0) = Inr c"
    using count_keywords_total [OF assms] by blast
  then show ?thesis
    by (cases c) (simp add: analyze_sentiment_def py_div_def Let_def)
qed

lemma get_news_summary_dict:
  "get_news_summary arts = Inr (SummaryDict d) \<Longrightarrow>
   \<exists>p n. analyze_sentiment arts = Inr (sentiment_score d, p, n)"
  by (auto simp add: get_news_summary_def split: if_splits sum.splits prod.splits)

lemma get_news_summary_total:
  assumes "\<forall>a \<in> set arts. title a \<noteq> None \<and> description a \<noteq> None" and "arts \<noteq> []"
  shows "\<exists>d. get_news_summary arts = Inr (SummaryDict d)"
proof -
  obtain s p n where "analyze_sentiment arts = Inr (s, p, n)"
    using analyze_sentiment_total [OF assms(1)] by blast
  moreover obtain c where "categorize_news arts = Inr c"
    using categorize_news_total [OF assms(1)] by blast
  ultimately show ?thesis
    using assms(2) by (simp add: get_news_summary_def is_major_news_def)
qed

text \<open>
  C7. The summary of the empty article list is the string \<open>"No recent news"\<close>. Every
  score that \<open>analyze_sentiment\<close> returns lies between -1 and 1 and is 0 when both keyword
  counts are 0, and so does the score in every summary dictionary. A score is returned
  for every article list whose titles and descriptions are strings, and a dictionary
  for every such list that is not empty.
\<close>

theorem sentiment_score_bounded:
  "get_news_summary [] = Inr (SummaryStr no_news) \<and>
   (\<forall>s p n. analyze_sentiment arts = Inr (s, p, n) \<longrightarrow>
      - 1 \<le> s \<and> s \<le> 1 \<and> (p = 0 \<and> n = 0 \<longrightarrow> s = 0)) \<and>
   (\<forall>d. get_news_summary arts = Inr (SummaryDict d) \<longrightarrow>
      - 1 \<le> sentiment_score d \<and> sentiment_score d \<le> 1) \<and>
   ((\<forall>a \<in> set arts. title a \<noteq> None \<and> description a \<noteq> None) \<longrightarrow>
      (\<exists>s p n. analyze_sentiment arts = Inr (s, p, n)) \<and>
      (arts \<noteq> [] \<longrightarrow> (\<exists>d. get_news_summary arts = Inr (SummaryDict d))))"
proof (intro conjI allI impI)
  show "get_news_summary [] = Inr (SummaryStr no_news)"
    by (simp add: get_news_summary_def)
next
  fix s p n assume "analyze_sentiment arts = Inr (s, p, n)"
  from analyze_sentiment_bounds [OF this]
  show "- 1 \<le> s" "s \<le> 1" by simp_all
next
  fix s p n assume "analyze_sentiment arts = Inr (s, p, n)" "p = 0 \<and> n = 0"
  with analyze_sentiment_bounds show "s = 0" by blast
next
  fix d assume "get_news_summary arts = Inr (SummaryDict d)"
  then obtain p n where "analyze_sentiment arts = Inr (sentiment_score d, p, n)"
    using get_news_summary_dict by blast
  from analyze_sentiment_bounds [OF this]
  show "- 1 \<le> sentiment_score d" "sentiment_score d \<le> 1" by simp_all
next
  assume "\<forall>a \<in> set arts. title a \<noteq> None \<and> description a \<noteq> None"
  then show "\<exists>s p n. analyze_sentiment arts = Inr (s, p, n)"
    by (rule analyze_sentiment_total)
next
  assume "\<forall>a \<in> set arts. title a \<noteq> None \<and> description a \<noteq> None" "arts \<noteq> []"
  then show "\<exists>d. get_news_summary arts = Inr (SummaryDict d)"
    by (rule get_news_summary_total)
qed


lemma contract_article_sentiment:
  "analyze_sentiment [contract_article] = Inr (1 / 3, 2, 1)"
  by code_simp

lemma contract_article_summary:
  "get_news_summary [contract_article] =
     Inr (SummaryDict
           \<lparr>sentiment = ''Highly Positive'', sentiment_score = 1 / 3,
            category = ''Contract News'', is_major = True,
            positive_keywords = 2, negative_keywords = 1\<rparr>)"
  by code_simp

theorem sentiment_score_bounded_witness:
  "title contract_article \<noteq> None \<and> description contract_article \<noteq> None \<and>
   analyze_sentiment [contract_article] = Inr (1 / 3, 2, 1) \<and>
   - 1 \<le> (1 / 3 :: real) \<and> (1 / 3 :: real) \<le> 1 \<and>
   (\<exists>d. get_news_summary [contract_article] = Inr (SummaryDict d))"
proof -
  have wf: "\<forall>a \<in> set [contract_article]. title a \<noteq> None \<and> description a \<noteq> None"
    by (simp add: contract_article_def)
  from sentiment_score_bounded [of "[contract_article]"] wf contract_article_sentiment
  show ?thesis by auto
qed

end
